theory Spec2Isabelle
  imports Main
begin

section \<open>Exit codes of the check command (internal/cmd/check.go)\<close>

text \<open>
  Modelled from the spec: the three exit codes of a completed check run are constants of
  the pipe-fittings package \<open>constants\<close>, which is not among the sources. Their values
  are those of the comment above \<open>runCheckCmd\<close> (\<open>exitCode=0\<close>, \<open>exitCode=1\<close>,
  \<open>exitCode=2\<close>) and of the spec's exit code mapping.
\<close>

definition ExitCodeSuccessful :: int where
  "ExitCodeSuccessful = 0"

definition ExitCodeControlsAlarm :: int where
  "ExitCodeControlsAlarm = 1"

definition ExitCodeControlsError :: int where
  "ExitCodeControlsError = 2"

text \<open>
  \<open>getExitCode\<close> compares its two arguments with zero, errors first. Go's \<open>int\<close> is
  read as a mathematical integer here: the function does no arithmetic.
\<close>

definition getExitCode :: "int \<Rightarrow> int \<Rightarrow> int" where
  "getExitCode alarms errors =
     (if errors > 0 then ExitCodeControlsError
      else if alarms > 0 then ExitCodeControlsAlarm
      else ExitCodeSuccessful)"

section \<open>Argument validation\<close>

text \<open>
  The configuration that \<open>validateCheckArgs\<close> reads through viper. The result of
  \<open>ValidateSnapshotArgs\<close> (package \<open>cmdconfig\<close>, not among the sources) is a field:
  \<open>None\<close> when it returns nil, the message of its error otherwise. A Go string is a
  sequence of bytes and \<open>len\<close> counts bytes, as \<open>length\<close> does on \<open>string\<close>.
\<close>

record check_args =
  snapshot_args_error :: "string option"
  search_path_set :: bool
  search_path_prefix_set :: bool
  separator :: string
  share :: bool
  snapshot :: bool
  where_set :: bool
  tag_set :: bool

datatype arg_error =
    SnapshotArgsError string
  | SearchPathConflict
  | SeparatorTooLong
  | ShareSnapshotConflict
  | WhereTagConflict

definition validateCheckArgs :: "check_args \<Rightarrow> arg_error option" where
  "validateCheckArgs a =
     (case snapshot_args_error a of
        Some msg \<Rightarrow> Some (SnapshotArgsError msg)
      | None \<Rightarrow>
          if search_path_set a \<and> search_path_prefix_set a then Some SearchPathConflict
          else if length (separator a) > 1 then Some SeparatorTooLong
          else if share a \<and> snapshot a then Some ShareSnapshotConflict
          else if where_set a \<and> tag_set a then Some WhereTagConflict
          else None)"

text \<open>
  The value of a flag reaches the program as the bytes of its UTF-8 encoding, and a Go
  string read as text is UTF-8. \<open>utf8_encode\<close> gives the bytes of one character (a
  code point up to \<open>0x10FFFF\<close>, surrogates apart), \<open>go_string\<close> the Go string of a
  sequence of characters.
\<close>

definition utf8_encode :: "nat \<Rightarrow> string" where
  "utf8_encode c =
     (if c < 0x80 then [char_of c]
      else if c < 0x800 then [char_of (0xC0 + c div 0x40), char_of (0x80 + c mod 0x40)]
      else if c < 0x10000 then
        [char_of (0xE0 + c div 0x1000), char_of (0x80 + c div 0x40 mod 0x40),
         char_of (0x80 + c mod 0x40)]
      else
        [char_of (0xF0 + c div 0x40000), char_of (0x80 + c div 0x1000 mod 0x40),
         char_of (0x80 + c div 0x40 mod 0x40), char_of (0x80 + c mod 0x40)])"

definition go_string :: "nat list \<Rightarrow> string" where
  "go_string cs = concat (map utf8_encode cs)"

section \<open>The check run (runCheckCmd)\<close>

text \<open>
  The exit codes of runtime and setup failures are constants of the same absent package;
  neither the source nor the spec gives their values, so they are parameters of the run.
\<close>

record exit_codes =
  ExitCodeInsufficientOrWrongInputs :: int
  ExitCodeInitializationFailed :: int
  ExitCodeUnknownErrorPanic :: int

text \<open>
  Modelled from the spec: what the absent constants must satisfy, after the comment
  \<open>exitCode=3+ runtime errors\<close> and the spec's \<open>\<ge>3: runtime/setup failure\<close>.
\<close>

definition runtime_codes :: "exit_codes \<Rightarrow> bool" where
  "runtime_codes c \<longleftrightarrow>
     3 \<le> ExitCodeInsufficientOrWrongInputs c \<and> 3 \<le> ExitCodeInitializationFailed c \<and>
     3 \<le> ExitCodeUnknownErrorPanic c"

text \<open>
  \<open>totalErrors++\<close> on Go's \<open>int\<close> (64 bits on the platforms the tool is built for)
  wraps around at the largest value.
\<close>

definition max_int :: int where
  "max_int = 2 ^ 63 - 1"

definition min_int :: int where
  "min_int = - (2 ^ 63)"

definition incr :: "int \<Rightarrow> int" where
  "incr x = (if x = max_int then min_int else x + 1)"

text \<open>
  How a call into a package outside the sources ends: it returns with a nil error, it
  returns an error, or it panics.
\<close>

datatype outcome = Returned | Failed | Panicked

text \<open>
  What one run meets. \<open>cancel_at\<close> is the moment the shared context is canceled, if it
  is, on the clock of the run's cancellation checks: 0 at the entry of
  \<open>getExecutionTree\<close>, 1 at its return, 3 in \<open>publishSnapshot\<close>, 4 in
  \<open>exportExecutionTree\<close>. A canceled context stays canceled. \<open>root_alarm\<close> and
  \<open>root_error\<close> are \<open>Root.Summary.Status.Alarm\<close> and \<open>.Error\<close> of the tree after
  \<open>tree.Execute\<close>.
\<close>

record run_env =
  args :: check_args
  config_dump :: bool
  init_data :: outcome
  cancel_at :: "nat option"
  new_tree :: outcome
  tree_execute :: outcome
  display :: outcome
  root_alarm :: int
  root_error :: int
  publish :: outcome
  do_export :: outcome

definition ctx_canceled :: "run_env \<Rightarrow> nat \<Rightarrow> bool" where
  "ctx_canceled env t = (case cancel_at env of None \<Rightarrow> False | Some c \<Rightarrow> c \<le> t)"

text \<open>The calls a run makes, in order: the observable part of its effects.\<close>

datatype event =
    EvShowError
  | EvDisplayConfig
  | EvNewInitData
  | EvCleanup
  | EvNewExecutionTree
  | EvTreeExecute
  | EvDisplayResults
  | EvPublishSnapshot
  | EvDoExport

text \<open>
  \<open>getExecutionTree\<close>: the tree is built by \<open>NewExecutionTree\<close> unless the context is
  already canceled, and the context's error is returned beside the tree. The choice of
  the export name has no part in the outcome and is left out.
\<close>

definition getExecutionTree :: "run_env \<Rightarrow> event list \<times> outcome" where
  "getExecutionTree env =
     (if ctx_canceled env 0 then ([], Failed)
      else case new_tree env of
          Returned \<Rightarrow> ([EvNewExecutionTree], if ctx_canceled env 1 then Failed else Returned)
        | Failed \<Rightarrow> ([EvNewExecutionTree], Failed)
        | Panicked \<Rightarrow> ([EvNewExecutionTree], Panicked))"

definition executeTree :: "run_env \<Rightarrow> event list \<times> outcome" where
  "executeTree env =
     (case tree_execute env of
        Returned \<Rightarrow> ([EvTreeExecute, EvDisplayResults], display env)
      | Failed \<Rightarrow> ([EvTreeExecute], Failed)
      | Panicked \<Rightarrow> ([EvTreeExecute], Panicked))"

definition publishSnapshot :: "run_env \<Rightarrow> event list \<times> outcome" where
  "publishSnapshot env =
     (if ctx_canceled env 3 then ([], Failed)
      else if share (args env) \<or> snapshot (args env) then ([EvPublishSnapshot], publish env)
      else ([], Returned))"

definition exportExecutionTree :: "run_env \<Rightarrow> event list \<times> outcome" where
  "exportExecutionTree env =
     (if ctx_canceled env 4 then ([], Failed) else ([EvDoExport], do_export env))"

text \<open>
  Lines 158 to 188 of \<open>runCheckCmd\<close>: the totals that the deferred function hands to
  \<open>getExitCode\<close>, the calls made, and whether the body panicked.
\<close>

definition run_execution :: "run_env \<Rightarrow> (int \<times> int) \<times> event list \<times> bool" where
  "run_execution env =
     (case executeTree env of
        (evs, Panicked) \<Rightarrow> ((0, 0), evs, True)
      | (evs, Failed) \<Rightarrow> ((0, incr 0), evs @ [EvShowError], False)
      | (evs, Returned) \<Rightarrow>
          (let totalAlarms = root_alarm env; totalErrors = root_error env in
           case publishSnapshot env of
             (evs2, Panicked) \<Rightarrow> ((totalAlarms, totalErrors), evs @ evs2, True)
           | (evs2, Failed) \<Rightarrow>
               ((totalAlarms, incr totalErrors), evs @ evs2 @ [EvShowError], False)
           | (evs2, Returned) \<Rightarrow>
               (case exportExecutionTree env of
                  (evs3, Panicked) \<Rightarrow> ((totalAlarms, totalErrors), evs @ evs2 @ evs3, True)
                | (evs3, Failed) \<Rightarrow>
                    ((totalAlarms, incr totalErrors), evs @ evs2 @ evs3 @ [EvShowError], False)
                | (evs3, Returned) \<Rightarrow>
                    ((totalAlarms, totalErrors), evs @ evs2 @ evs3, False))))"

record run_state =
  exitCode :: int
  trace :: "event list"

text \<open>
  \<open>runCheckCmd\<close>, from the value the global \<open>exitCode\<close> has when the command starts.
  \<open>FailOnError\<close> panics on the error of \<open>getExecutionTree\<close>. The deferred functions run
  last registered first: the exit code of the totals, the cleanup, then the recovery,
  which overwrites the exit code after a panic. The calls whose result the source does
  not read (logging, the status hooks, showing an error, printing the timing) are taken
  to return.
\<close>

definition runCheckCmd :: "exit_codes \<Rightarrow> run_env \<Rightarrow> int \<Rightarrow> run_state" where
  "runCheckCmd c env exitCode0 =
     (case validateCheckArgs (args env) of
        Some err \<Rightarrow>
          \<lparr>exitCode = ExitCodeInsufficientOrWrongInputs c, trace = [EvShowError]\<rparr>
      | None \<Rightarrow>
          if config_dump env then \<lparr>exitCode = exitCode0, trace = [EvDisplayConfig]\<rparr>
          else (case init_data env of
              Panicked \<Rightarrow>
                \<lparr>exitCode = ExitCodeUnknownErrorPanic c, trace = [EvNewInitData, EvShowError]\<rparr>
            | Failed \<Rightarrow>
                \<lparr>exitCode = ExitCodeInitializationFailed c,
                 trace = [EvNewInitData, EvShowError]\<rparr>
            | Returned \<Rightarrow>
                (case getExecutionTree env of
                   (evs, Returned) \<Rightarrow>
                     (case run_execution env of
                        ((totalAlarms, totalErrors), evs2, panicked) \<Rightarrow>
                          (let deferred = getExitCode totalAlarms totalErrors in
                           \<lparr>exitCode =
                              (if panicked then ExitCodeUnknownErrorPanic c else deferred),
                            trace = [EvNewInitData] @ evs @ evs2 @ [EvCleanup] @
                              (if panicked then [EvShowError] else [])\<rparr>))
                 | (evs, Failed) \<Rightarrow>
                     \<lparr>exitCode = ExitCodeUnknownErrorPanic c,
                      trace = [EvNewInitData] @ evs @ [EvCleanup, EvShowError]\<rparr>
                 | (evs, Panicked) \<Rightarrow>
                     \<lparr>exitCode = ExitCodeUnknownErrorPanic c,
                      trace = [EvNewInitData] @ evs @ [EvCleanup, EvShowError]\<rparr>)))"

text \<open>Where a run stands, for the statements below.\<close>

definition reaches_execution :: "run_env \<Rightarrow> bool" where
  "reaches_execution env \<longleftrightarrow>
     validateCheckArgs (args env) = None \<and> \<not> config_dump env \<and>
     init_data env = Returned \<and> snd (getExecutionTree env) = Returned"

definition step_panicked :: "run_env \<Rightarrow> bool" where
  "step_panicked env \<longleftrightarrow>
     snd (executeTree env) = Panicked \<or>
     (snd (executeTree env) = Returned \<and>
       (snd (publishSnapshot env) = Panicked \<or>
        (snd (publishSnapshot env) = Returned \<and> snd (exportExecutionTree env) = Panicked)))"

definition step_failed :: "run_env \<Rightarrow> bool" where
  "step_failed env \<longleftrightarrow>
     snd (executeTree env) = Failed \<or>
     (snd (executeTree env) = Returned \<and>
       (snd (publishSnapshot env) = Failed \<or>
        (snd (publishSnapshot env) = Returned \<and> snd (exportExecutionTree env) = Failed)))"

text \<open>The cause that decides the exit code of a run; the five cases exclude each other.\<close>

datatype cause = InvalidArgs | ConfigDumped | InitFailed | Panic | Executed

definition run_cause :: "run_env \<Rightarrow> cause" where
  "run_cause env =
     (case validateCheckArgs (args env) of
        Some e \<Rightarrow> InvalidArgs
      | None \<Rightarrow>
          if config_dump env then ConfigDumped
          else (case init_data env of
              Failed \<Rightarrow> InitFailed
            | Panicked \<Rightarrow> Panic
            | Returned \<Rightarrow>
                if snd (getExecutionTree env) = Returned \<and> \<not> step_panicked env
                then Executed
                else Panic))"

text \<open>Runs to evaluate the statements on.\<close>

definition args_plain :: check_args where
  "args_plain =
     \<lparr>snapshot_args_error = None, search_path_set = False, search_path_prefix_set = False,
      separator = '','', share = False, snapshot = False, where_set = False,
      tag_set = False\<rparr>"

definition env_plain :: run_env where
  "env_plain =
     \<lparr>args = args_plain, config_dump = False, init_data = Returned, cancel_at = None,
      new_tree = Returned, tree_execute = Returned, display = Returned, root_alarm = 0,
      root_error = 0, publish = Returned, do_export = Returned\<rparr>"

definition codes_example :: exit_codes where
  "codes_example =
     \<lparr>ExitCodeInsufficientOrWrongInputs = 254, ExitCodeInitializationFailed = 250,
      ExitCodeUnknownErrorPanic = 255\<rparr>"

definition env_export_fails :: run_env where
  "env_export_fails = env_plain\<lparr>do_export := Failed\<rparr>"

definition env_publish_fails :: run_env where
  "env_publish_fails =
     env_plain\<lparr>args := args_plain\<lparr>snapshot := True\<rparr>, root_alarm := 3, publish := Failed\<rparr>"

definition env_canceled :: run_env where
  "env_canceled = env_plain\<lparr>cancel_at := Some 2, root_alarm := 1, root_error := 2\<rparr>"

definition args_where_tag :: check_args where
  "args_where_tag = args_plain\<lparr>where_set := True, tag_set := True\<rparr>"

definition args_where_tag_separator :: check_args where
  "args_where_tag_separator = args_where_tag\<lparr>separator := ''ab''\<rparr>"

definition env_long_separator :: run_env where
  "env_long_separator = env_plain\<lparr>args := args_plain\<lparr>separator := ''ab''\<rparr>\<rparr>"

definition env_share_snapshot :: run_env where
  "env_share_snapshot = env_plain\<lparr>args := args_plain\<lparr>share := True, snapshot := True\<rparr>\<rparr>"

definition env_where_tag :: run_env where
  "env_where_tag = env_plain\<lparr>args := args_where_tag\<rparr>"

definition env_where_tag_separator :: run_env where
  "env_where_tag_separator = env_plain\<lparr>args := args_where_tag_separator\<rparr>"

definition env_section_sign :: run_env where
  "env_section_sign = env_plain\<lparr>args := args_plain\<lparr>separator := go_string [0xA7]\<rparr>\<rparr>"

definition env_init_fails :: run_env where
  "env_init_fails = env_plain\<lparr>init_data := Failed\<rparr>"

definition env_canceled_early :: run_env where
  "env_canceled_early = env_plain\<lparr>cancel_at := Some 0\<rparr>"

definition env_config_dump :: run_env where
  "env_config_dump = env_plain\<lparr>config_dump := True\<rparr>"

definition env_alarms :: run_env where
  "env_alarms = env_plain\<lparr>root_alarm := 3\<rparr>"

section \<open>Leaf data of a control (NewLeafData)\<close>

text \<open>
  \<open>ColumnDef\<close> is a type of pipe-fittings; \<open>NewLeafData\<close> reads its \<open>Name\<close> only. A
  cell is an \<open>interface{}\<close>, here any type \<open>'v\<close>. The rows of a \<open>SyncQueryResult\<close>
  are taken to be \<open>RowResult\<close>s, as the type assertion of the loop demands.
\<close>

record ColumnDef =
  Name :: string
  DataType :: string

record 'v RowResult =
  Data :: "'v list"

record 'v SyncQueryResult =
  Rows :: "'v RowResult list"
  Cols :: "ColumnDef list"

record 'v LeafData =
  Columns :: "ColumnDef list"
  Rows :: "(string \<rightharpoonup> 'v) list"

text \<open>
  The inner loop over the cells of one row, from index \<open>i\<close>: the cell is stored under
  the name of the column of the same index. \<open>leafData.Columns[i]\<close> panics when the row
  has more cells than there are columns: the result is \<open>None\<close>.
\<close>

fun row_data :: "ColumnDef list \<Rightarrow> nat \<Rightarrow> 'v list \<Rightarrow> (string \<rightharpoonup> 'v) \<Rightarrow> (string \<rightharpoonup> 'v) option" where
  "row_data cols i [] rowData = Some rowData"
| "row_data cols i (d # ds) rowData =
     (if i < length cols then row_data cols (Suc i) ds (rowData(Name (cols ! i) \<mapsto> d))
      else None)"

text \<open>The outer loop: the rows are filled in by index, in the order of the source.\<close>

fun leaf_rows :: "ColumnDef list \<Rightarrow> 'v RowResult list \<Rightarrow> (string \<rightharpoonup> 'v) list option" where
  "leaf_rows cols [] = Some []"
| "leaf_rows cols (row # rest) =
     (case row_data cols 0 (Data row) Map.empty of
        None \<Rightarrow> None
      | Some rowData \<Rightarrow>
          (case leaf_rows cols rest of
             None \<Rightarrow> None
           | Some filled \<Rightarrow> Some (rowData # filled)))"

definition NewLeafData :: "'v SyncQueryResult \<Rightarrow> 'v LeafData option" where
  "NewLeafData result =
     (case leaf_rows (Cols result) (SyncQueryResult.Rows result) of
        None \<Rightarrow> None
      | Some rs \<Rightarrow> Some \<lparr>Columns = Cols result, Rows = rs\<rparr>)"

text \<open>The last index below \<open>n\<close> whose column has the name \<open>k\<close>, if there is one.\<close>

fun last_column :: "ColumnDef list \<Rightarrow> nat \<Rightarrow> string \<Rightarrow> nat option" where
  "last_column cols 0 k = None"
| "last_column cols (Suc n) k = (if Name (cols ! n) = k then Some n else last_column cols n k)"

text \<open>Query results to evaluate the statements on.\<close>

definition result_two :: "int SyncQueryResult" where
  "result_two =
     \<lparr>SyncQueryResult.Rows = [\<lparr>Data = [1, 10]\<rparr>, \<lparr>Data = [2, 20]\<rparr>],
      Cols = [\<lparr>Name = ''id'', DataType = ''int''\<rparr>, \<lparr>Name = ''reason'', DataType = ''int''\<rparr>]\<rparr>"

definition result_same_name :: "int SyncQueryResult" where
  "result_same_name =
     \<lparr>SyncQueryResult.Rows = [\<lparr>Data = [1, 2]\<rparr>],
      Cols = [\<lparr>Name = ''a'', DataType = ''int''\<rparr>, \<lparr>Name = ''a'', DataType = ''int''\<rparr>]\<rparr>"

section \<open>Query execution (ExecuteQuery)\<close>

text \<open>
  The client's \<open>Execute\<close> is a parameter; it returns a result and an error, nil or not.
  \<open>rs\<close> is the streamer that \<open>NewResultStreamer\<close> has just made. The goroutine that
  \<open>ExecuteQuery\<close> starts is recorded, not run: its body streams the result into the
  streamer and closes it.
\<close>

datatype ('s, 'r) goroutine = StreamResultThenClose 's 'r

record ('s, 'e, 'r) query_return =
  streamer :: "'s option"
  err :: "'e option"
  started :: "('s, 'r) goroutine list"

definition ExecuteQuery ::
  "'s \<Rightarrow> ('q \<Rightarrow> 'a list \<Rightarrow> 'r \<times> 'e option) \<Rightarrow> 'q \<Rightarrow> 'a list \<Rightarrow> ('s, 'e, 'r) query_return" where
  "ExecuteQuery rs execute queryString qargs =
     (case execute queryString qargs of
        (result, Some e) \<Rightarrow> \<lparr>streamer = None, err = Some e, started = []\<rparr>
      | (result, None) \<Rightarrow>
          \<lparr>streamer = Some rs, err = None, started = [StreamResultThenClose rs result]\<rparr>)"

section \<open>Dimensions of a check result (check/common/index.ts)\<close>

text \<open>
  \<open>findDimension\<close>: an absent argument is \<open>None\<close>. \<open>!dimensions\<close> holds of
  \<open>undefined\<close> only (an array is truthy, empty or not); \<open>!key\<close> holds of \<open>undefined\<close>
  and of the empty string. \<open>Array.prototype.find\<close> returns the first element that
  satisfies the predicate.
\<close>

record CheckResultDimension =
  key :: string
  value' :: string

definition findDimension ::
  "CheckResultDimension list option \<Rightarrow> string option \<Rightarrow> CheckResultDimension option" where
  "findDimension dimensions k =
     (case dimensions of
        None \<Rightarrow> None
      | Some ds \<Rightarrow>
          (case k of
             None \<Rightarrow> None
           | Some s \<Rightarrow> if s = [] then None else find (\<lambda>d. key d = s) ds))"

text \<open>Dimensions and clients to evaluate the statements on.\<close>

definition dims_example :: "CheckResultDimension list" where
  "dims_example =
     [\<lparr>key = ''region'', value' = ''eu''\<rparr>, \<lparr>key = ''account'', value' = ''a1''\<rparr>,
      \<lparr>key = ''region'', value' = ''us''\<rparr>]"

definition execute_ok :: "string \<Rightarrow> int list \<Rightarrow> nat \<times> string option" where
  "execute_ok q qargs = (42, None)"

definition execute_fails :: "string \<Rightarrow> int list \<Rightarrow> nat \<times> string option" where
  "execute_fails q qargs = (0, Some ''connection refused'')"

section \<open>Theorems\<close>

lemmas run_defs = runCheckCmd_def run_execution_def validateCheckArgs_def getExecutionTree_def
  executeTree_def publishSnapshot_def exportExecutionTree_def ctx_canceled_def getExitCode_def
  ExitCodeControlsError_def ExitCodeControlsAlarm_def ExitCodeSuccessful_def incr_def
  max_int_def min_int_def reaches_execution_def step_failed_def step_panicked_def
  run_cause_def runtime_codes_def

subsection \<open>The exit code resolver\<close>

text \<open>
  C1: \<open>getExitCode\<close> is a function of the two counts alone: 2 when there are errors,
  else 1 when there are alarms, else 0. For counts that are not negative, each code
  names its case; errors dominate alarms, so 3 alarms and 2 errors give 2.
\<close>

theorem getExitCode_resolves:
  "getExitCode alarms errors =
     (if 0 < errors then 2 else if 0 < alarms then 1 else 0) \<and>
   (0 \<le> alarms \<and> 0 \<le> errors \<longrightarrow>
      (getExitCode alarms errors = 2 \<longleftrightarrow> errors > 0) \<and>
      (getExitCode alarms errors = 1 \<longleftrightarrow> errors = 0 \<and> alarms > 0) \<and>
      (getExitCode alarms errors = 0 \<longleftrightarrow> errors = 0 \<and> alarms = 0)) \<and>
   getExitCode 3 2 = 2"
  by (auto simp add: getExitCode_def ExitCodeControlsError_def ExitCodeControlsAlarm_def
      ExitCodeSuccessful_def)

theorem getExitCode_resolves_witness:
  "getExitCode 0 0 = 0 \<and> getExitCode 3 0 = 1 \<and> getExitCode 0 2 = 2 \<and> getExitCode 3 2 = 2"
  using getExitCode_resolves [of 0 0] getExitCode_resolves [of 3 0]
    getExitCode_resolves [of 0 2] getExitCode_resolves [of 3 2]
  by simp

subsection \<open>Argument validation aborts the run\<close>

lemma validate_error_abort:
  "validateCheckArgs (args env) = Some e \<Longrightarrow>
   runCheckCmd c env ec0 =
     \<lparr>exitCode = ExitCodeInsufficientOrWrongInputs c, trace = [EvShowError]\<rparr>"
  by (simp add: runCheckCmd_def)

lemma validate_abort:
  assumes "validateCheckArgs (args env) \<noteq> None"
  shows "runCheckCmd c env ec0 =
     \<lparr>exitCode = ExitCodeInsufficientOrWrongInputs c, trace = [EvShowError]\<rparr>"
proof -
  from assms obtain e where "validateCheckArgs (args env) = Some e" by blast
  then show ?thesis by (rule validate_error_abort)
qed

text \<open>
  C2, as amended: when both \<open>--where\<close> and \<open>--tag\<close> are set, argument validation
  fails and the run ends with the wrong-inputs exit code, having only shown the error:
  nothing is initialised, no tree is built, no control is executed. The error is the one
  of the first failing check of \<open>validateCheckArgs\<close>, in the order snapshot arguments,
  search path, separator, share and snapshot, where and tag: the where/tag error exactly
  when no earlier check fails.
\<close>

theorem where_tag_conflict:
  "where_set (args env) \<and> tag_set (args env) \<longrightarrow>
     validateCheckArgs (args env) =
       (case snapshot_args_error (args env) of
          Some msg \<Rightarrow> Some (SnapshotArgsError msg)
        | None \<Rightarrow>
            if search_path_set (args env) \<and> search_path_prefix_set (args env)
            then Some SearchPathConflict
            else if length (separator (args env)) > 1 then Some SeparatorTooLong
            else if share (args env) \<and> snapshot (args env) then Some ShareSnapshotConflict
            else Some WhereTagConflict) \<and>
     validateCheckArgs (args env) \<noteq> None \<and>
     (validateCheckArgs (args env) = Some WhereTagConflict \<longleftrightarrow>
        snapshot_args_error (args env) = None \<and>
        \<not> (search_path_set (args env) \<and> search_path_prefix_set (args env)) \<and>
        length (separator (args env)) \<le> 1 \<and> \<not> (share (args env) \<and> snapshot (args env))) \<and>
     exitCode (runCheckCmd c env ec0) = ExitCodeInsufficientOrWrongInputs c \<and>
     trace (runCheckCmd c env ec0) = [EvShowError] \<and>
     EvNewInitData \<notin> set (trace (runCheckCmd c env ec0)) \<and>
     EvNewExecutionTree \<notin> set (trace (runCheckCmd c env ec0)) \<and>
     EvTreeExecute \<notin> set (trace (runCheckCmd c env ec0))"
proof (intro impI)
  assume both: "where_set (args env) \<and> tag_set (args env)"
  then have first: "validateCheckArgs (args env) =
       (case snapshot_args_error (args env) of
          Some msg \<Rightarrow> Some (SnapshotArgsError msg)
        | None \<Rightarrow>
            if search_path_set (args env) \<and> search_path_prefix_set (args env)
            then Some SearchPathConflict
            else if length (separator (args env)) > 1 then Some SeparatorTooLong
            else if share (args env) \<and> snapshot (args env) then Some ShareSnapshotConflict
            else Some WhereTagConflict)"
    by (simp add: validateCheckArgs_def split: option.splits)
  then have bad: "validateCheckArgs (args env) \<noteq> None"
    by (simp split: option.splits)
  have last: "validateCheckArgs (args env) = Some WhereTagConflict \<longleftrightarrow>
      snapshot_args_error (args env) = None \<and>
      \<not> (search_path_set (args env) \<and> search_path_prefix_set (args env)) \<and>
      length (separator (args env)) \<le> 1 \<and> \<not> (share (args env) \<and> snapshot (args env))"
    unfolding first by (auto split: option.splits)
  note run = validate_abort [OF bad, of c ec0]
  show "validateCheckArgs (args env) =
       (case snapshot_args_error (args env) of
          Some msg \<Rightarrow> Some (SnapshotArgsError msg)
        | None \<Rightarrow>
            if search_path_set (args env) \<and> search_path_prefix_set (args env)
            then Some SearchPathConflict
            else if length (separator (args env)) > 1 then Some SeparatorTooLong
            else if share (args env) \<and> snapshot (args env) then Some ShareSnapshotConflict
            else Some WhereTagConflict) \<and>
     validateCheckArgs (args env) \<noteq> None \<and>
     (validateCheckArgs (args env) = Some WhereTagConflict \<longleftrightarrow>
        snapshot_args_error (args env) = None \<and>
        \<not> (search_path_set (args env) \<and> search_path_prefix_set (args env)) \<and>
        length (separator (args env)) \<le> 1 \<and> \<not> (share (args env) \<and> snapshot (args env))) \<and>
     exitCode (runCheckCmd c env ec0) = ExitCodeInsufficientOrWrongInputs c \<and>
     trace (runCheckCmd c env ec0) = [EvShowError] \<and>
     EvNewInitData \<notin> set (trace (runCheckCmd c env ec0)) \<and>
     EvNewExecutionTree \<notin> set (trace (runCheckCmd c env ec0)) \<and>
     EvTreeExecute \<notin> set (trace (runCheckCmd c env ec0))"
    using first bad last by (simp only: run) simp
qed

theorem where_tag_conflict_witness:
  "where_set (args env_where_tag) \<and> tag_set (args env_where_tag) \<and>
   validateCheckArgs (args env_where_tag) = Some WhereTagConflict \<and>
   exitCode (runCheckCmd codes_example env_where_tag 0) = 254 \<and>
   trace (runCheckCmd codes_example env_where_tag 0) = [EvShowError] \<and>
   where_set (args env_where_tag_separator) \<and> tag_set (args env_where_tag_separator) \<and>
   validateCheckArgs (args env_where_tag_separator) = Some SeparatorTooLong \<and>
   exitCode (runCheckCmd codes_example env_where_tag_separator 0) = 254 \<and>
   trace (runCheckCmd codes_example env_where_tag_separator 0) = [EvShowError]"
proof -
  have a: "where_set (args env_where_tag) \<and> tag_set (args env_where_tag)"
    by (simp add: env_where_tag_def args_where_tag_def env_plain_def args_plain_def)
  have b: "where_set (args env_where_tag_separator) \<and> tag_set (args env_where_tag_separator)"
    by (simp add: env_where_tag_separator_def args_where_tag_separator_def args_where_tag_def
        env_plain_def args_plain_def)
  from where_tag_conflict [of env_where_tag codes_example 0] a
  have "validateCheckArgs (args env_where_tag) = Some WhereTagConflict \<and>
      exitCode (runCheckCmd codes_example env_where_tag 0) = 254 \<and>
      trace (runCheckCmd codes_example env_where_tag 0) = [EvShowError]"
    by (simp add: env_where_tag_def args_where_tag_def env_plain_def args_plain_def
        codes_example_def)
  moreover from where_tag_conflict [of env_where_tag_separator codes_example 0] b
  have "validateCheckArgs (args env_where_tag_separator) = Some SeparatorTooLong \<and>
      exitCode (runCheckCmd codes_example env_where_tag_separator 0) = 254 \<and>
      trace (runCheckCmd codes_example env_where_tag_separator 0) = [EvShowError]"
    by (simp add: env_where_tag_separator_def args_where_tag_separator_def args_where_tag_def
        env_plain_def args_plain_def codes_example_def)
  ultimately show ?thesis using a b by simp
qed

theorem where_tag_conflict_counterexample:
  "where_set args_where_tag_separator \<and> tag_set args_where_tag_separator \<and>
   validateCheckArgs args_where_tag_separator = Some SeparatorTooLong \<and>
   validateCheckArgs args_where_tag_separator \<noteq> Some WhereTagConflict"
  by (simp add: args_where_tag_separator_def args_where_tag_def args_plain_def
      validateCheckArgs_def)

text \<open>
  The check on the separator, in bytes: a separator of more than one byte (Go's \<open>len\<close>)
  makes \<open>validateCheckArgs\<close> return an error, and the run ends with the wrong-inputs exit
  code before initialisation. A separator of length 0 or 1 passes this check: the
  separator error is not returned and the result is the one for an empty separator.
\<close>

lemma separator_check:
  "(length (separator (args env)) > 1 \<longrightarrow>
      validateCheckArgs (args env) \<noteq> None \<and>
      exitCode (runCheckCmd c env ec0) = ExitCodeInsufficientOrWrongInputs c \<and>
      EvNewInitData \<notin> set (trace (runCheckCmd c env ec0))) \<and>
   (length (separator (args env)) \<le> 1 \<longrightarrow>
      validateCheckArgs (args env) \<noteq> Some SeparatorTooLong \<and>
      validateCheckArgs (args env) = validateCheckArgs ((args env)\<lparr>separator := []\<rparr>))"
proof (intro conjI impI)
  assume long: "length (separator (args env)) > 1"
  then show bad: "validateCheckArgs (args env) \<noteq> None"
    by (simp add: validateCheckArgs_def split: option.splits)
  note run = validate_abort [OF bad, of c ec0]
  show "exitCode (runCheckCmd c env ec0) = ExitCodeInsufficientOrWrongInputs c"
    by (simp add: run)
  show "EvNewInitData \<notin> set (trace (runCheckCmd c env ec0))"
    by (simp add: run)
next
  assume short: "length (separator (args env)) \<le> 1"
  then show "validateCheckArgs (args env) \<noteq> Some SeparatorTooLong"
    by (simp add: validateCheckArgs_def split: option.splits)
  from short show
    "validateCheckArgs (args env) = validateCheckArgs ((args env)\<lparr>separator := []\<rparr>)"
    by (simp add: validateCheckArgs_def split: option.splits)
qed

lemma separator_check_examples:
  "length (separator (args env_long_separator)) > 1 \<and>
   validateCheckArgs (args env_long_separator) = Some SeparatorTooLong \<and>
   exitCode (runCheckCmd codes_example env_long_separator 0) = 254 \<and>
   EvNewInitData \<notin> set (trace (runCheckCmd codes_example env_long_separator 0)) \<and>
   length (separator (args env_plain)) \<le> 1 \<and>
   validateCheckArgs (args env_plain) = None"
  using separator_check [of env_long_separator codes_example 0]
    separator_check [of env_plain codes_example 0]
  by (simp add: env_long_separator_def env_plain_def args_plain_def codes_example_def
      validateCheckArgs_def)

text \<open>
  The same check, in characters: a character takes one byte when it is below \<open>0x80\<close>
  and more otherwise. So a separator of more than one character is refused, the empty
  separator and a single character below \<open>0x80\<close> pass, and a single character from
  \<open>0x80\<close> on is refused.
\<close>

lemma utf8_encode_length:
  "1 \<le> length (utf8_encode c)" "length (utf8_encode c) = 1 \<longleftrightarrow> c < 0x80"
  by (simp_all add: utf8_encode_def)

lemma go_string_length:
  "length cs \<le> length (go_string cs)"
proof (induction cs)
  case Nil
  then show ?case by (simp add: go_string_def)
next
  case (Cons c cs)
  have "1 \<le> length (utf8_encode c)" by (rule utf8_encode_length)
  with Cons show ?case by (simp add: go_string_def)
qed

lemma separator_characters:
  assumes "separator (args env) = go_string cs"
  shows "(length cs > 1 \<longrightarrow> validateCheckArgs (args env) \<noteq> None) \<and>
         (cs = [] \<longrightarrow> validateCheckArgs (args env) \<noteq> Some SeparatorTooLong) \<and>
         (cs = [ch] \<and> ch < 0x80 \<longrightarrow> validateCheckArgs (args env) \<noteq> Some SeparatorTooLong) \<and>
         (cs = [ch] \<and> 0x80 \<le> ch \<longrightarrow>
            validateCheckArgs (args env) \<noteq> None \<and>
            exitCode (runCheckCmd c env ec0) = ExitCodeInsufficientOrWrongInputs c \<and>
            trace (runCheckCmd c env ec0) = [EvShowError])"
proof (intro conjI impI)
  assume "length cs > 1"
  then have "length (separator (args env)) > 1"
    using go_string_length [of cs] assms by simp
  then show "validateCheckArgs (args env) \<noteq> None"
    using separator_check [of env c ec0] by blast
next
  assume "cs = []"
  then have "length (separator (args env)) \<le> 1" using assms by (simp add: go_string_def)
  then show "validateCheckArgs (args env) \<noteq> Some SeparatorTooLong"
    using separator_check [of env c ec0] by blast
next
  assume "cs = [ch] \<and> ch < 0x80"
  then have "length (separator (args env)) \<le> 1"
    using assms utf8_encode_length(2) [of ch] by (simp add: go_string_def)
  then show "validateCheckArgs (args env) \<noteq> Some SeparatorTooLong"
    using separator_check [of env c ec0] by blast
next
  assume big: "cs = [ch] \<and> 0x80 \<le> ch"
  have "length (utf8_encode ch) \<noteq> 1" "1 \<le> length (utf8_encode ch)"
    using big utf8_encode_length [of ch] by simp_all
  then have "length (separator (args env)) > 1"
    using assms big by (simp add: go_string_def)
  then show bad: "validateCheckArgs (args env) \<noteq> None"
    using separator_check [of env c ec0] by blast
  note run = validate_abort [OF bad, of c ec0]
  show "exitCode (runCheckCmd c env ec0) = ExitCodeInsufficientOrWrongInputs c"
    by (simp add: run)
  show "trace (runCheckCmd c env ec0) = [EvShowError]"
    by (simp add: run)
qed

text \<open>
  C8 says that an empty or single-character separator passes the check, as do the comment
  (\<open>only 1 character is allowed\<close>) and the message of the check
  (\<open>can be 1 character long at most\<close>). The code counts bytes: the section sign
  \<open>U+00A7\<close>, a single character, is the two bytes \<open>C2 A7\<close> as a Go string, so
  \<open>validateCheckArgs\<close> returns the separator error and the run ends with the wrong-inputs
  exit code, having only shown the error.
\<close>

theorem separator_single_character_refused:
  "length [0xA7 :: nat] = 1 \<and>
   separator (args env_section_sign) = go_string [0xA7] \<and>
   go_string [0xA7] = [CHR 0xC2, CHR 0xA7] \<and>
   validateCheckArgs (args env_section_sign) = Some SeparatorTooLong \<and>
   exitCode (runCheckCmd codes_example env_section_sign 0) = 254 \<and>
   trace (runCheckCmd codes_example env_section_sign 0) = [EvShowError]"
proof -
  have bytes: "go_string [0xA7] = [CHR 0xC2, CHR 0xA7]"
    by (simp add: go_string_def utf8_encode_def char_of_def bit_iff_odd)
  have sep: "separator (args env_section_sign) = go_string [0xA7]"
    by (simp add: env_section_sign_def env_plain_def args_plain_def)
  have bad: "validateCheckArgs (args env_section_sign) = Some SeparatorTooLong"
    by (simp add: validateCheckArgs_def sep bytes)
       (simp add: env_section_sign_def env_plain_def args_plain_def)
  have run: "runCheckCmd codes_example env_section_sign 0 =
      \<lparr>exitCode = 254, trace = [EvShowError]\<rparr>"
    by (simp add: runCheckCmd_def bad codes_example_def)
  show ?thesis by (simp add: bytes sep bad run)
qed

text \<open>
  C9: with both \<open>--share\<close> and \<open>--snapshot\<close> set, \<open>validateCheckArgs\<close> returns an
  error and the run ends with the wrong-inputs exit code before initialisation, tree
  building or execution. With at most one of them set, this check passes: the
  share/snapshot error is not returned and the result is the one with neither set.
\<close>

theorem share_snapshot_exclusive:
  "(share (args env) \<and> snapshot (args env) \<longrightarrow>
      validateCheckArgs (args env) \<noteq> None \<and>
      exitCode (runCheckCmd c env ec0) = ExitCodeInsufficientOrWrongInputs c \<and>
      EvNewInitData \<notin> set (trace (runCheckCmd c env ec0)) \<and>
      EvNewExecutionTree \<notin> set (trace (runCheckCmd c env ec0)) \<and>
      EvTreeExecute \<notin> set (trace (runCheckCmd c env ec0))) \<and>
   (\<not> (share (args env) \<and> snapshot (args env)) \<longrightarrow>
      validateCheckArgs (args env) \<noteq> Some ShareSnapshotConflict \<and>
      validateCheckArgs (args env) =
        validateCheckArgs ((args env)\<lparr>share := False, snapshot := False\<rparr>))"
proof (intro conjI impI)
  assume both: "share (args env) \<and> snapshot (args env)"
  then show bad: "validateCheckArgs (args env) \<noteq> None"
    by (simp add: validateCheckArgs_def split: option.splits)
  note run = validate_abort [OF bad, of c ec0]
  show "exitCode (runCheckCmd c env ec0) = ExitCodeInsufficientOrWrongInputs c"
    by (simp add: run)
  show "EvNewInitData \<notin> set (trace (runCheckCmd c env ec0))"
    by (simp add: run)
  show "EvNewExecutionTree \<notin> set (trace (runCheckCmd c env ec0))"
    by (simp add: run)
  show "EvTreeExecute \<notin> set (trace (runCheckCmd c env ec0))"
    by (simp add: run)
next
  assume one: "\<not> (share (args env) \<and> snapshot (args env))"
  then show "validateCheckArgs (args env) \<noteq> Some ShareSnapshotConflict"
    by (auto simp add: validateCheckArgs_def split: option.splits if_splits)
  from one show "validateCheckArgs (args env) =
      validateCheckArgs ((args env)\<lparr>share := False, snapshot := False\<rparr>)"
    by (auto simp add: validateCheckArgs_def split: option.splits)
qed

theorem share_snapshot_exclusive_witness:
  "share (args env_share_snapshot) \<and> snapshot (args env_share_snapshot) \<and>
   validateCheckArgs (args env_share_snapshot) = Some ShareSnapshotConflict \<and>
   exitCode (runCheckCmd codes_example env_share_snapshot 0) = 254 \<and>
   EvTreeExecute \<notin> set (trace (runCheckCmd codes_example env_share_snapshot 0)) \<and>
   snapshot (args env_publish_fails) \<and> \<not> share (args env_publish_fails) \<and>
   validateCheckArgs (args env_publish_fails) = None"
  using share_snapshot_exclusive [of env_share_snapshot codes_example 0]
    share_snapshot_exclusive [of env_publish_fails codes_example 0]
  by (simp add: env_share_snapshot_def env_publish_fails_def env_plain_def args_plain_def
      codes_example_def validateCheckArgs_def)

subsection \<open>The exit code of a run\<close>

lemma incr_pos: "0 \<le> x \<Longrightarrow> x < max_int \<Longrightarrow> 0 < incr x"
  by (simp add: incr_def)

lemma incr_zero: "incr 0 = 1"
  by (simp add: incr_def max_int_def)

lemma run_exit_code:
  assumes "reaches_execution env"
  shows "exitCode (runCheckCmd c env ec0) =
     (if step_panicked env then ExitCodeUnknownErrorPanic c
      else if snd (executeTree env) = Failed then getExitCode 0 (incr 0)
      else if step_failed env then getExitCode (root_alarm env) (incr (root_error env))
      else getExitCode (root_alarm env) (root_error env))"
proof -
  obtain e0 where t: "getExecutionTree env = (e0, Returned)"
    using assms by (cases "getExecutionTree env") (simp add: reaches_execution_def)
  obtain e1 o1 where x: "executeTree env = (e1, o1)" by (cases "executeTree env")
  obtain e2 o2 where p: "publishSnapshot env = (e2, o2)" by (cases "publishSnapshot env")
  obtain e3 o3 where d: "exportExecutionTree env = (e3, o3)"
    by (cases "exportExecutionTree env")
  have pre: "validateCheckArgs (args env) = None" "\<not> config_dump env"
    "init_data env = Returned"
    using assms by (simp_all add: reaches_execution_def)
  show ?thesis
    by (cases o1; cases o2; cases o3)
      (simp_all add: runCheckCmd_def run_execution_def step_panicked_def step_failed_def
        pre t x p d)
qed

lemma canceled_fails:
  assumes "ctx_canceled env 4"
  shows "step_failed env \<or> step_panicked env"
proof -
  obtain e1 o1 where x: "executeTree env = (e1, o1)" by (cases "executeTree env")
  obtain e2 o2 where p: "publishSnapshot env = (e2, o2)" by (cases "publishSnapshot env")
  have d: "exportExecutionTree env = ([], Failed)"
    using assms by (simp add: exportExecutionTree_def)
  show ?thesis
    by (cases o1; cases o2) (simp_all add: step_panicked_def step_failed_def x p d)
qed

text \<open>
  C3, as amended: for a run that reaches execution, with an error count of the root
  that is not negative and below the largest \<open>int\<close>: when \<open>executeTree\<close>,
  \<open>publishSnapshot\<close> and \<open>exportExecutionTree\<close> all return without error, the exit code
  is \<open>getExitCode\<close> of the root's alarm and error counts; when one of them returns an
  error the root's counts do not decide the exit code, which is never the success code;
  with any error counted in the root the exit code is never the success code; a run
  whose context is canceled by the time of the last cancellation check has a failed
  step and never exits with the success code; a panic gives the panic exit code.
\<close>

theorem exit_code_of_execution:
  assumes "reaches_execution env" and "0 \<le> root_error env" and "root_error env < max_int"
  shows "(\<not> step_panicked env \<and> \<not> step_failed env \<longrightarrow>
            exitCode (runCheckCmd c env ec0) = getExitCode (root_alarm env) (root_error env)) \<and>
         (\<not> step_panicked env \<and> step_failed env \<longrightarrow>
            exitCode (runCheckCmd c env ec0) \<noteq> ExitCodeSuccessful) \<and>
         (\<not> step_panicked env \<and> 0 < root_error env \<longrightarrow>
            exitCode (runCheckCmd c env ec0) \<noteq> ExitCodeSuccessful) \<and>
         (\<not> step_panicked env \<and> ctx_canceled env 4 \<longrightarrow>
            step_failed env \<and> exitCode (runCheckCmd c env ec0) \<noteq> ExitCodeSuccessful) \<and>
         (step_panicked env \<longrightarrow>
            exitCode (runCheckCmd c env ec0) = ExitCodeUnknownErrorPanic c)"
proof -
  note ec = run_exit_code [OF assms(1), of c ec0]
  have pos: "0 < incr (root_error env)" using assms(2,3) by (rule incr_pos)
  have ne: "ExitCodeControlsError \<noteq> ExitCodeSuccessful"
    by (simp add: ExitCodeControlsError_def ExitCodeSuccessful_def)
  have one: "getExitCode 0 (incr 0) = ExitCodeControlsError"
    by (simp add: incr_zero getExitCode_def)
  have inc: "getExitCode (root_alarm env) (incr (root_error env)) = ExitCodeControlsError"
    using pos by (simp add: getExitCode_def)
  have failed: "exitCode (runCheckCmd c env ec0) \<noteq> ExitCodeSuccessful"
    if "\<not> step_panicked env" "step_failed env"
    using that ec one inc ne by (simp split: if_splits)
  have errs: "exitCode (runCheckCmd c env ec0) \<noteq> ExitCodeSuccessful"
    if "\<not> step_panicked env" "0 < root_error env"
  proof (cases "step_failed env")
    case True
    then show ?thesis using that(1) failed by simp
  next
    case False
    then have "snd (executeTree env) \<noteq> Failed" by (auto simp add: step_failed_def)
    then show ?thesis using that False ec ne by (simp add: getExitCode_def)
  qed
  have canc: "step_failed env \<and> exitCode (runCheckCmd c env ec0) \<noteq> ExitCodeSuccessful"
    if "\<not> step_panicked env" "ctx_canceled env 4"
    using that canceled_fails [OF that(2)] failed by blast
  show ?thesis
    using ec failed errs canc by (auto simp add: step_failed_def)
qed

theorem exit_code_of_execution_witness:
  "reaches_execution env_canceled \<and> 0 \<le> root_error env_canceled \<and>
   root_error env_canceled < max_int \<and> \<not> step_panicked env_canceled \<and>
   ctx_canceled env_canceled 4 \<and> step_failed env_canceled \<and>
   exitCode (runCheckCmd codes_example env_canceled 0) \<noteq> 0 \<and>
   reaches_execution env_alarms \<and> \<not> step_panicked env_alarms \<and> \<not> step_failed env_alarms \<and>
   exitCode (runCheckCmd codes_example env_alarms 0) = 1"
proof -
  have c: "reaches_execution env_canceled" "0 \<le> root_error env_canceled"
    "root_error env_canceled < max_int"
    by (simp_all add: env_canceled_def env_plain_def args_plain_def run_defs)
  have a: "reaches_execution env_alarms" "0 \<le> root_error env_alarms"
    "root_error env_alarms < max_int"
    by (simp_all add: env_alarms_def env_plain_def args_plain_def run_defs)
  have sc: "\<not> step_panicked env_canceled" "ctx_canceled env_canceled 4"
    by (simp_all add: env_canceled_def env_plain_def args_plain_def run_defs)
  have sa: "\<not> step_panicked env_alarms" "\<not> step_failed env_alarms"
    by (simp_all add: env_alarms_def env_plain_def args_plain_def run_defs)
  have ga: "getExitCode (root_alarm env_alarms) (root_error env_alarms) = 1"
    by (simp add: env_alarms_def env_plain_def run_defs)
  from exit_code_of_execution [OF c, of codes_example 0] sc
  have "step_failed env_canceled \<and> exitCode (runCheckCmd codes_example env_canceled 0) \<noteq> 0"
    by (simp add: ExitCodeSuccessful_def)
  moreover from exit_code_of_execution [OF a, of codes_example 0] sa ga
  have "exitCode (runCheckCmd codes_example env_alarms 0) = 1"
    by simp
  ultimately show ?thesis using c a sc sa by simp
qed

theorem exit_code_of_execution_counterexample:
  "reaches_execution env_publish_fails \<and>
   exitCode (runCheckCmd codes_example env_publish_fails 0) = 2 \<and>
   getExitCode (root_alarm env_publish_fails) (root_error env_publish_fails) = 1"
  by (simp add: env_publish_fails_def env_plain_def args_plain_def codes_example_def run_defs)

lemma run_cause_Executed:
  "run_cause env = Executed \<longleftrightarrow> reaches_execution env \<and> \<not> step_panicked env"
  by (auto simp add: run_cause_def reaches_execution_def split: option.splits outcome.splits)

lemma run_not_executed:
  "run_cause env = InvalidArgs \<Longrightarrow>
     exitCode (runCheckCmd c env ec0) = ExitCodeInsufficientOrWrongInputs c"
  "run_cause env = ConfigDumped \<Longrightarrow> exitCode (runCheckCmd c env ec0) = ec0"
  "run_cause env = InitFailed \<Longrightarrow>
     exitCode (runCheckCmd c env ec0) = ExitCodeInitializationFailed c"
  by (auto simp add: run_cause_def runCheckCmd_def split: option.splits outcome.splits if_splits)

lemma run_panic:
  assumes "run_cause env = Panic"
  shows "exitCode (runCheckCmd c env ec0) = ExitCodeUnknownErrorPanic c"
proof (cases "reaches_execution env")
  case True
  then have "step_panicked env"
    using assms
    by (auto simp add: run_cause_def reaches_execution_def
        split: option.splits outcome.splits if_splits)
  then show ?thesis using run_exit_code [OF True, of c ec0] by simp
next
  case False
  obtain e0 o0 where t: "getExecutionTree env = (e0, o0)" by (cases "getExecutionTree env")
  show ?thesis
    using assms False
    by (cases o0)
      (auto simp add: run_cause_def reaches_execution_def runCheckCmd_def t
        split: option.splits outcome.splits if_splits)
qed

text \<open>
  The exit code by the cause of the run's end, given that the three runtime exit codes are
  at least 3 and root counts that are not negative (the error count below the largest
  \<open>int\<close>): a run that fails argument validation, fails initialisation or panics (also
  when the tree cannot be built) exits with its own code, at least 3; the diagnostic
  configuration dump leaves the exit code as it was; every other run exits with 0, 1 or
  2, with 0 exactly when no step failed and the root has neither alarms nor errors, 1
  exactly when no step failed and the root has alarms and no errors, and 2 exactly when
  the root has errors or execution, snapshot publishing or export returned an error.
\<close>

lemma exit_code_by_cause:
  assumes "runtime_codes c" and "0 \<le> root_alarm env" and "0 \<le> root_error env"
    and "root_error env < max_int"
  shows "(run_cause env = InvalidArgs \<longrightarrow>
            exitCode (runCheckCmd c env ec0) = ExitCodeInsufficientOrWrongInputs c \<and>
            3 \<le> exitCode (runCheckCmd c env ec0)) \<and>
         (run_cause env = InitFailed \<longrightarrow>
            exitCode (runCheckCmd c env ec0) = ExitCodeInitializationFailed c \<and>
            3 \<le> exitCode (runCheckCmd c env ec0)) \<and>
         (run_cause env = Panic \<longrightarrow>
            exitCode (runCheckCmd c env ec0) = ExitCodeUnknownErrorPanic c \<and>
            3 \<le> exitCode (runCheckCmd c env ec0)) \<and>
         (run_cause env = ConfigDumped \<longrightarrow> exitCode (runCheckCmd c env ec0) = ec0) \<and>
         (run_cause env = Executed \<longrightarrow>
            exitCode (runCheckCmd c env ec0) \<in> {0, 1, 2} \<and>
            (exitCode (runCheckCmd c env ec0) = 0 \<longleftrightarrow>
               \<not> step_failed env \<and> root_alarm env = 0 \<and> root_error env = 0) \<and>
            (exitCode (runCheckCmd c env ec0) = 1 \<longleftrightarrow>
               \<not> step_failed env \<and> 0 < root_alarm env \<and> root_error env = 0) \<and>
            (exitCode (runCheckCmd c env ec0) = 2 \<longleftrightarrow>
               step_failed env \<or> 0 < root_error env))"
proof (intro conjI impI)
  assume ex: "run_cause env = Executed"
  then have re: "reaches_execution env" and np: "\<not> step_panicked env"
    by (simp_all add: run_cause_Executed)
  have pos: "0 < incr (root_error env)" using assms(3,4) by (rule incr_pos)
  have f: "snd (executeTree env) = Failed \<Longrightarrow> step_failed env"
    by (simp add: step_failed_def)
  have ec: "exitCode (runCheckCmd c env ec0) =
      (if step_failed env then 2 else getExitCode (root_alarm env) (root_error env))"
    using run_exit_code [OF re, of c ec0] np pos f
    by (auto simp add: incr_zero getExitCode_def ExitCodeControlsError_def)
  have g: "getExitCode (root_alarm env) (root_error env) =
      (if 0 < root_error env then 2 else if 0 < root_alarm env then 1 else 0)"
    by (simp add: getExitCode_def ExitCodeControlsError_def ExitCodeControlsAlarm_def
        ExitCodeSuccessful_def)
  show "exitCode (runCheckCmd c env ec0) \<in> {0, 1, 2}" by (simp add: ec g)
  show "exitCode (runCheckCmd c env ec0) = 0 \<longleftrightarrow>
      \<not> step_failed env \<and> root_alarm env = 0 \<and> root_error env = 0"
    using assms(2,3) by (auto simp add: ec g)
  show "exitCode (runCheckCmd c env ec0) = 1 \<longleftrightarrow>
      \<not> step_failed env \<and> 0 < root_alarm env \<and> root_error env = 0"
    using assms(2,3) by (auto simp add: ec g)
  show "exitCode (runCheckCmd c env ec0) = 2 \<longleftrightarrow> step_failed env \<or> 0 < root_error env"
    by (auto simp add: ec g)
qed (use assms(1) in \<open>simp_all add: run_not_executed run_panic runtime_codes_def\<close>)

lemma exit_code_by_cause_examples:
  "runtime_codes codes_example \<and>
   run_cause env_where_tag = InvalidArgs \<and>
   exitCode (runCheckCmd codes_example env_where_tag 0) = 254 \<and>
   run_cause env_init_fails = InitFailed \<and>
   exitCode (runCheckCmd codes_example env_init_fails 0) = 250 \<and>
   run_cause env_canceled_early = Panic \<and>
   exitCode (runCheckCmd codes_example env_canceled_early 0) = 255 \<and>
   run_cause env_config_dump = ConfigDumped \<and>
   exitCode (runCheckCmd codes_example env_config_dump 0) = 0 \<and>
   run_cause env_plain = Executed \<and> exitCode (runCheckCmd codes_example env_plain 0) = 0 \<and>
   run_cause env_alarms = Executed \<and> exitCode (runCheckCmd codes_example env_alarms 0) = 1 \<and>
   run_cause env_canceled = Executed \<and> exitCode (runCheckCmd codes_example env_canceled 0) = 2"
proof -
  have k: "runtime_codes codes_example"
    by (simp add: runtime_codes_def codes_example_def)
  have w1: "run_cause env_where_tag = InvalidArgs" "0 \<le> root_alarm env_where_tag"
    "0 \<le> root_error env_where_tag" "root_error env_where_tag < max_int"
    by (simp_all add: env_where_tag_def args_where_tag_def env_plain_def args_plain_def
        run_defs)
  have w2: "run_cause env_init_fails = InitFailed" "0 \<le> root_alarm env_init_fails"
    "0 \<le> root_error env_init_fails" "root_error env_init_fails < max_int"
    by (simp_all add: env_init_fails_def env_plain_def args_plain_def run_defs)
  have w3: "run_cause env_canceled_early = Panic" "0 \<le> root_alarm env_canceled_early"
    "0 \<le> root_error env_canceled_early" "root_error env_canceled_early < max_int"
    by (simp_all add: env_canceled_early_def env_plain_def args_plain_def run_defs)
  have w4: "run_cause env_config_dump = ConfigDumped" "0 \<le> root_alarm env_config_dump"
    "0 \<le> root_error env_config_dump" "root_error env_config_dump < max_int"
    by (simp_all add: env_config_dump_def env_plain_def args_plain_def run_defs)
  have w5: "run_cause env_plain = Executed" "0 \<le> root_alarm env_plain"
    "0 \<le> root_error env_plain" "root_error env_plain < max_int"
    by (simp_all add: env_plain_def args_plain_def run_defs)
  have x5: "\<not> step_failed env_plain" "root_alarm env_plain = 0" "root_error env_plain = 0"
    by (simp_all add: env_plain_def args_plain_def run_defs)
  have w6: "run_cause env_alarms = Executed" "0 \<le> root_alarm env_alarms"
    "0 \<le> root_error env_alarms" "root_error env_alarms < max_int"
    by (simp_all add: env_alarms_def env_plain_def args_plain_def run_defs)
  have x6: "\<not> step_failed env_alarms" "0 < root_alarm env_alarms"
    "root_error env_alarms = 0"
    by (simp_all add: env_alarms_def env_plain_def args_plain_def run_defs)
  have w7: "run_cause env_canceled = Executed" "0 \<le> root_alarm env_canceled"
    "0 \<le> root_error env_canceled" "root_error env_canceled < max_int"
    by (simp_all add: env_canceled_def env_plain_def args_plain_def run_defs)
  have x7: "step_failed env_canceled"
    by (simp add: env_canceled_def env_plain_def args_plain_def run_defs)
  have "exitCode (runCheckCmd codes_example env_where_tag 0) = 254"
    using exit_code_by_cause [OF k w1(2-4), of 0] w1(1) by (simp add: codes_example_def)
  moreover have "exitCode (runCheckCmd codes_example env_init_fails 0) = 250"
    using exit_code_by_cause [OF k w2(2-4), of 0] w2(1) by (simp add: codes_example_def)
  moreover have "exitCode (runCheckCmd codes_example env_canceled_early 0) = 255"
    using exit_code_by_cause [OF k w3(2-4), of 0] w3(1) by (simp add: codes_example_def)
  moreover have "exitCode (runCheckCmd codes_example env_config_dump 0) = 0"
    using exit_code_by_cause [OF k w4(2-4), of 0] w4(1) by simp
  moreover have "exitCode (runCheckCmd codes_example env_plain 0) = 0"
    using exit_code_by_cause [OF k w5(2-4), of 0] w5(1) x5 by simp
  moreover have "exitCode (runCheckCmd codes_example env_alarms 0) = 1"
    using exit_code_by_cause [OF k w6(2-4), of 0] w6(1) x6 by simp
  moreover have "exitCode (runCheckCmd codes_example env_canceled 0) = 2"
    using exit_code_by_cause [OF k w7(2-4), of 0] w7(1) x7 by simp
  ultimately show ?thesis using k w1(1) w2(1) w3(1) w4(1) w5(1) w6(1) w7(1) by simp
qed

text \<open>
  C7 says that the exit code 2 stands for control errors only and that a runtime failure
  exits with 3 or more, as the comment above \<open>runCheckCmd\<close> does. The code does
  otherwise: a run whose root summary has no alarm and no error, and whose export returns
  an error, counts the failure as an error and exits with 2.
\<close>

theorem export_failure_exit_code:
  "run_cause env_export_fails = Executed \<and> root_alarm env_export_fails = 0 \<and>
   root_error env_export_fails = 0 \<and> snd (exportExecutionTree env_export_fails) = Failed \<and>
   exitCode (runCheckCmd codes_example env_export_fails 0) = 2"
  by (simp add: env_export_fails_def env_plain_def args_plain_def codes_example_def run_defs)

subsection \<open>Leaf data\<close>

lemma row_data_snoc:
  "row_data cols i (ds @ [d]) m =
     (case row_data cols i ds m of
        None \<Rightarrow> None
      | Some m' \<Rightarrow>
          if i + length ds < length cols then Some (m'(Name (cols ! (i + length ds)) \<mapsto> d))
          else None)"
proof (induction ds arbitrary: i m)
  case Nil
  then show ?case by simp
next
  case (Cons x xs)
  show ?case
  proof (cases "i < length cols")
    case True
    then have r: "row_data cols i (x # xs) m =
        row_data cols (Suc i) xs (m(Name (cols ! i) \<mapsto> x))"
      by simp
    have a: "i + length (x # xs) = Suc i + length xs" by simp
    from True have "row_data cols i ((x # xs) @ [d]) m =
        row_data cols (Suc i) (xs @ [d]) (m(Name (cols ! i) \<mapsto> x))"
      by simp
    also note Cons.IH [of "Suc i" "m(Name (cols ! i) \<mapsto> x)"]
    finally show ?thesis by (simp only: r a)
  next
    case False
    then show ?thesis by simp
  qed
qed

lemma row_data_None_iff:
  "i \<le> length cols \<Longrightarrow> row_data cols i ds m = None \<longleftrightarrow> length cols < i + length ds"
  by (induction ds arbitrary: i m) auto

lemma row_data_0_None_iff:
  "row_data cols 0 ds m = None \<longleftrightarrow> length cols < length ds"
  by (simp add: row_data_None_iff)

lemma last_column_Some:
  "last_column cols n k = Some j \<Longrightarrow>
     j < n \<and> Name (cols ! j) = k \<and> (\<forall>i. j < i \<and> i < n \<longrightarrow> Name (cols ! i) \<noteq> k)"
proof (induction n)
  case 0
  then show ?case by simp
next
  case (Suc n)
  show ?case
  proof (cases "Name (cols ! n) = k")
    case True
    then show ?thesis using Suc.prems by auto
  next
    case False
    then have "last_column cols n k = Some j" using Suc.prems by simp
    from Suc.IH [OF this] False show ?thesis
      by (auto simp add: less_Suc_eq)
  qed
qed

lemma last_column_None:
  "last_column cols n k = None \<longleftrightarrow> (\<forall>i<n. Name (cols ! i) \<noteq> k)"
  by (induction n) (auto simp add: less_Suc_eq)

lemma last_column_unique:
  assumes "i < n" and "\<forall>i'. i < i' \<and> i' < n \<longrightarrow> Name (cols ! i') \<noteq> Name (cols ! i)"
  shows "last_column cols n (Name (cols ! i)) = Some i"
proof (cases "last_column cols n (Name (cols ! i))")
  case None
  then show ?thesis using assms(1) by (auto simp add: last_column_None)
next
  case (Some j)
  from last_column_Some [OF Some] assms have "j = i"
    by (metis linorder_neqE_nat)
  then show ?thesis using Some by simp
qed

lemma row_data_lookup:
  "row_data cols 0 ds Map.empty = Some m \<Longrightarrow>
     m k = map_option (\<lambda>i. ds ! i) (last_column cols (length ds) k)"
proof (induction ds arbitrary: m rule: rev_induct)
  case Nil
  then show ?case by auto
next
  case (snoc d ds)
  from snoc.prems obtain m' where
    m': "row_data cols 0 ds Map.empty = Some m'" and
    m: "m = m'(Name (cols ! length ds) \<mapsto> d)"
    by (auto simp add: row_data_snoc split: option.splits if_splits)
  show ?case
  proof (cases "Name (cols ! length ds) = k")
    case True
    then show ?thesis by (simp add: m)
  next
    case False
    have "m k = map_option (\<lambda>i. ds ! i) (last_column cols (length ds) k)"
      using snoc.IH [OF m'] False by (simp add: m)
    also have "\<dots> = map_option (\<lambda>i. (ds @ [d]) ! i) (last_column cols (length ds) k)"
    proof (cases "last_column cols (length ds) k")
      case None
      then show ?thesis by simp
    next
      case (Some j)
      then have "j < length ds" using last_column_Some by blast
      then show ?thesis by (simp add: Some nth_append)
    qed
    finally show ?thesis using False by simp
  qed
qed

lemma leaf_rows_None_iff:
  "leaf_rows cols rows = None \<longleftrightarrow> (\<exists>row\<in>set rows. length cols < length (Data row))"
proof (induction rows)
  case Nil
  then show ?case by simp
next
  case (Cons row rest)
  show ?case
  proof (cases "row_data cols 0 (Data row) Map.empty")
    case None
    then have "length cols < length (Data row)" by (simp add: row_data_0_None_iff)
    then show ?thesis by (simp add: None)
  next
    case (Some m)
    then have "\<not> length cols < length (Data row)"
      using row_data_0_None_iff [of cols "Data row" Map.empty] by simp
    then show ?thesis using Some Cons.IH by (auto split: option.splits)
  qed
qed

lemma leaf_rows_Some:
  "leaf_rows cols rows = Some ms \<Longrightarrow>
     length ms = length rows \<and>
     (\<forall>j<length rows. row_data cols 0 (Data (rows ! j)) Map.empty = Some (ms ! j))"
proof (induction rows arbitrary: ms)
  case Nil
  then show ?case by simp
next
  case (Cons row rest)
  from Cons.prems obtain m tl where
    m: "row_data cols 0 (Data row) Map.empty = Some m" and
    tl: "leaf_rows cols rest = Some tl" and ms: "ms = m # tl"
    by (auto split: option.splits)
  from Cons.IH [OF tl] show ?case
    by (auto simp add: ms m nth_Cons split: nat.splits)
qed

text \<open>
  C4, as amended: when no row has more cells than there are columns, \<open>NewLeafData\<close>
  returns a \<open>LeafData\<close> whose columns are the source's columns, unchanged, and whose
  rows are as many as the source's, in its order; the row of index \<open>j\<close> maps a name to
  the cell of the last column of that name among the columns the source row has cells
  for, and to nothing when there is none. With column names that are all different,
  every row maps the name of column \<open>i\<close> to its cell \<open>i\<close>. A row with more cells than
  columns makes the function panic.
\<close>

theorem NewLeafData_preserves:
  "(if \<forall>row\<in>set (SyncQueryResult.Rows result). length (Data row) \<le> length (Cols result)
    then \<exists>leaf. NewLeafData result = Some leaf \<and>
      Columns leaf = Cols result \<and>
      length (LeafData.Rows leaf) = length (SyncQueryResult.Rows result) \<and>
      (\<forall>j<length (SyncQueryResult.Rows result). \<forall>k.
         (LeafData.Rows leaf ! j) k =
           map_option (\<lambda>i. Data (SyncQueryResult.Rows result ! j) ! i)
             (last_column (Cols result) (length (Data (SyncQueryResult.Rows result ! j))) k)) \<and>
      (distinct (map Name (Cols result)) \<longrightarrow>
         (\<forall>j<length (SyncQueryResult.Rows result).
            \<forall>i<length (Data (SyncQueryResult.Rows result ! j)).
              (LeafData.Rows leaf ! j) (Name (Cols result ! i)) =
                Some (Data (SyncQueryResult.Rows result ! j) ! i)))
    else NewLeafData result = None)"
proof (cases "\<forall>row\<in>set (SyncQueryResult.Rows result). length (Data row) \<le> length (Cols result)")
  case False
  then have "leaf_rows (Cols result) (SyncQueryResult.Rows result) = None"
    by (auto simp add: leaf_rows_None_iff not_le)
  then show ?thesis using False by (simp add: NewLeafData_def)
next
  case True
  then have "leaf_rows (Cols result) (SyncQueryResult.Rows result) \<noteq> None"
    by (auto simp add: leaf_rows_None_iff not_less)
  then obtain ms where ms: "leaf_rows (Cols result) (SyncQueryResult.Rows result) = Some ms"
    by blast
  let ?leaf = "\<lparr>Columns = Cols result, Rows = ms\<rparr>"
  note rows = leaf_rows_Some [OF ms]
  have look: "(ms ! j) k =
      map_option (\<lambda>i. Data (SyncQueryResult.Rows result ! j) ! i)
        (last_column (Cols result) (length (Data (SyncQueryResult.Rows result ! j))) k)"
    if "j < length (SyncQueryResult.Rows result)" for j k
    using rows that row_data_lookup by blast
  have dist: "(ms ! j) (Name (Cols result ! i)) = Some (Data (SyncQueryResult.Rows result ! j) ! i)"
    if d: "distinct (map Name (Cols result))" and j: "j < length (SyncQueryResult.Rows result)"
      and i: "i < length (Data (SyncQueryResult.Rows result ! j))" for i j
  proof -
    let ?n = "length (Data (SyncQueryResult.Rows result ! j))"
    have n: "?n \<le> length (Cols result)" using True j by simp
    have "\<forall>i'. i < i' \<and> i' < ?n \<longrightarrow> Name (Cols result ! i') \<noteq> Name (Cols result ! i)"
    proof (intro allI impI)
      fix i' assume a: "i < i' \<and> i' < ?n"
      then have "i' < length (Cols result)" "i < length (Cols result)" "i \<noteq> i'"
        using n by simp_all
      then show "Name (Cols result ! i') \<noteq> Name (Cols result ! i)"
        using d by (metis distinct_conv_nth length_map nth_map)
    qed
    from last_column_unique [OF i this] show ?thesis by (simp add: look [OF j])
  qed
  have "NewLeafData result = Some ?leaf" by (simp add: NewLeafData_def ms)
  moreover have "length (LeafData.Rows ?leaf) = length (SyncQueryResult.Rows result)"
    using rows by simp
  ultimately show ?thesis using True look dist by auto
qed

theorem NewLeafData_preserves_witness:
  "list_all (\<lambda>row. length (Data row) \<le> length (Cols result_two))
     (SyncQueryResult.Rows result_two) \<and>
   distinct (map Name (Cols result_two)) \<and>
   (\<exists>leaf. NewLeafData result_two = Some leaf \<and> Columns leaf = Cols result_two \<and>
      length (LeafData.Rows leaf) = 2 \<and>
      (LeafData.Rows leaf ! 0) ''id'' = Some 1 \<and> (LeafData.Rows leaf ! 0) ''reason'' = Some 10 \<and>
      (LeafData.Rows leaf ! 1) ''id'' = Some 2 \<and> (LeafData.Rows leaf ! 1) ''reason'' = Some 20 \<and>
      (LeafData.Rows leaf ! 1) ''status'' = None)"
proof -
  have fit: "\<forall>row\<in>set (SyncQueryResult.Rows result_two).
      length (Data row) \<le> length (Cols result_two)"
    by (simp add: result_two_def)
  have dist: "distinct (map Name (Cols result_two))"
    by (simp add: result_two_def)
  from NewLeafData_preserves [of result_two] fit obtain leaf where
    leaf: "NewLeafData result_two = Some leaf" "Columns leaf = Cols result_two"
      "length (LeafData.Rows leaf) = length (SyncQueryResult.Rows result_two)" and
    look: "\<forall>j<length (SyncQueryResult.Rows result_two). \<forall>k.
         (LeafData.Rows leaf ! j) k =
           map_option (\<lambda>i. Data (SyncQueryResult.Rows result_two ! j) ! i)
             (last_column (Cols result_two)
               (length (Data (SyncQueryResult.Rows result_two ! j))) k)"
    by auto
  have two: "Suc (Suc 0) = 2" by simp
  have l0: "(LeafData.Rows leaf ! 0) k =
      map_option (\<lambda>i. [1, 10] ! i) (last_column (Cols result_two) 2 k)" for k
    using look [rule_format, of 0 k] by (simp add: result_two_def two)
  have l1: "(LeafData.Rows leaf ! Suc 0) k =
      map_option (\<lambda>i. [2, 20] ! i) (last_column (Cols result_two) 2 k)" for k
    using look [rule_format, of "Suc 0" k] by (simp add: result_two_def two)
  have c: "last_column (Cols result_two) 2 ''id'' = Some 0"
    "last_column (Cols result_two) 2 ''reason'' = Some 1"
    "last_column (Cols result_two) 2 ''status'' = None"
    by (simp_all add: result_two_def two [symmetric])
  have "length (LeafData.Rows leaf) = 2"
    using leaf(3) by (simp add: result_two_def)
  then show ?thesis using fit dist leaf(1,2) by (simp add: l0 l1 c list_all_iff)
qed

theorem NewLeafData_preserves_counterexample:
  "NewLeafData result_same_name \<noteq> None \<and>
   Name (Cols result_same_name ! 0) = ''a'' \<and>
   Data (SyncQueryResult.Rows result_same_name ! 0) ! 0 = 1 \<and>
   (LeafData.Rows (the (NewLeafData result_same_name)) ! 0) (Name (Cols result_same_name ! 0)) =
     Some 2"
  by (simp add: NewLeafData_def result_same_name_def)

subsection \<open>Query execution\<close>

text \<open>
  C5: \<open>ExecuteQuery\<close> returns a streamer (the one it has just made) exactly when the
  client's \<open>Execute\<close> returns no error; the error it returns is the one of \<open>Execute\<close>;
  the streaming goroutine is started exactly in the first case, so with an error the
  streamer is nil and nothing is streamed.
\<close>

theorem ExecuteQuery_streamer:
  "(streamer (ExecuteQuery rs execute q qargs) \<noteq> None \<longleftrightarrow> snd (execute q qargs) = None) \<and>
   (streamer (ExecuteQuery rs execute q qargs) = Some rs \<longleftrightarrow> snd (execute q qargs) = None) \<and>
   err (ExecuteQuery rs execute q qargs) = snd (execute q qargs) \<and>
   started (ExecuteQuery rs execute q qargs) =
     (if snd (execute q qargs) = None then [StreamResultThenClose rs (fst (execute q qargs))]
      else [])"
  by (cases "execute q qargs") (auto simp add: ExecuteQuery_def split: option.splits)

theorem ExecuteQuery_streamer_witness:
  "streamer (ExecuteQuery (7::nat) execute_ok ''select 1'' []) = Some 7 \<and>
   err (ExecuteQuery (7::nat) execute_ok ''select 1'' []) = None \<and>
   started (ExecuteQuery (7::nat) execute_ok ''select 1'' []) = [StreamResultThenClose 7 42] \<and>
   streamer (ExecuteQuery (7::nat) execute_fails ''select 1'' []) = None \<and>
   err (ExecuteQuery (7::nat) execute_fails ''select 1'' []) = Some ''connection refused'' \<and>
   started (ExecuteQuery (7::nat) execute_fails ''select 1'' []) = []"
  using ExecuteQuery_streamer [of "7::nat" execute_ok "''select 1''" "[]"]
    ExecuteQuery_streamer [of "7::nat" execute_fails "''select 1''" "[]"]
  by (simp add: execute_ok_def execute_fails_def)

subsection \<open>Dimensions\<close>

text \<open>
  C10: \<open>findDimension\<close> returns undefined when the list of dimensions is absent and when
  the key is absent or empty; otherwise it returns the first dimension, in the order of
  the list, whose key equals the given key, and undefined when no dimension has that
  key.
\<close>

theorem findDimension_first_match:
  "findDimension None k = None \<and>
   findDimension dimensions None = None \<and>
   findDimension dimensions (Some []) = None \<and>
   (s \<noteq> [] \<longrightarrow>
      (findDimension (Some ds) (Some s) = None \<longleftrightarrow> (\<forall>d\<in>set ds. key d \<noteq> s)) \<and>
      (\<forall>d. findDimension (Some ds) (Some s) = Some d \<longleftrightarrow>
         (\<exists>i<length ds. ds ! i = d \<and> key d = s \<and> (\<forall>j<i. key (ds ! j) \<noteq> s))))"
  by (auto simp add: findDimension_def find_None_iff find_Some_iff split: option.splits)

theorem findDimension_first_match_witness:
  "findDimension (Some dims_example) (Some ''region'') = Some \<lparr>key = ''region'', value' = ''eu''\<rparr> \<and>
   findDimension (Some dims_example) (Some ''zone'') = None \<and>
   findDimension (Some dims_example) (Some []) = None \<and>
   findDimension (Some dims_example) None = None \<and>
   findDimension None (Some ''region'') = None"
proof -
  have ne: "''region'' \<noteq> []" "''zone'' \<noteq> []" by simp_all
  note t = findDimension_first_match [of "Some ''region''" "Some dims_example" "''region''" dims_example]
  note u = findDimension_first_match [of "Some ''region''" "Some dims_example" "''zone''" dims_example]
  have "\<forall>d\<in>set dims_example. key d \<noteq> ''zone''" by (simp add: dims_example_def)
  with u ne have z: "findDimension (Some dims_example) (Some ''zone'') = None" by blast
  have "\<exists>i<length dims_example. dims_example ! i = \<lparr>key = ''region'', value' = ''eu''\<rparr> \<and>
      key \<lparr>key = ''region'', value' = ''eu''\<rparr> = ''region'' \<and> (\<forall>j<i. key (dims_example ! j) \<noteq> ''region'')"
    by (rule exI [of _ 0]) (simp add: dims_example_def)
  with t ne have r: "findDimension (Some dims_example) (Some ''region'') = Some \<lparr>key = ''region'', value' = ''eu''\<rparr>"
    by blast
  from t r z show ?thesis by simp
qed

end
